theory Spec2Isabelle
  imports Complex_Main "HOL-Library.Sublist"
begin

section \<open>JavaScript values and strings\<close>

text \<open>
  The program is one JavaScript class, \<^verbatim>\<open>MolaisonExecutiveAssistant\<close>. Its values are
  modelled by one datatype: what \<^verbatim>\<open>JSON.parse\<close> can return, what the handlers return
  (a string or an object literal) and \<^verbatim>\<open>undefined\<close>. An object is the association list
  of its own properties, in the order the literal writes them.

  A string is a list of 8-bit characters. \<^verbatim>\<open>toLowerCase\<close> is modelled on the ASCII letters;
  every keyword the program searches for is made of lower-case ASCII letters and spaces.
\<close>

datatype jsval =
    JUndefined
  | JNull
  | JBool bool
  | JNum real
  | JStr string
  | JArr "jsval list"
  | JObj "(string \<times> jsval) list"

datatype js_error = TypeError | SyntaxError | AxiosError

definition thenE :: "'e + 'a \<Rightarrow> ('a \<Rightarrow> 'e + 'b) \<Rightarrow> 'e + 'b" where
  "thenE m f = (case m of Inl e \<Rightarrow> Inl e | Inr v \<Rightarrow> f v)"

text \<open>Property read \<^verbatim>\<open>v.k\<close>: a TypeError on \<^verbatim>\<open>undefined\<close> and \<^verbatim>\<open>null\<close>, the own
  property of an object, \<^verbatim>\<open>undefined\<close> otherwise (none of the names the program reads is
  a property of a string, number, boolean or array prototype).\<close>

fun getprop :: "jsval \<Rightarrow> string \<Rightarrow> js_error + jsval" where
  "getprop JUndefined k = Inl TypeError"
| "getprop JNull k = Inl TypeError"
| "getprop (JObj kvs) k = Inr (case map_of kvs k of Some v \<Rightarrow> v | None \<Rightarrow> JUndefined)"
| "getprop v k = Inr JUndefined"

text \<open>Index read \<^verbatim>\<open>v[0]\<close>.\<close>

fun index0 :: "jsval \<Rightarrow> js_error + jsval" where
  "index0 JUndefined = Inl TypeError"
| "index0 JNull = Inl TypeError"
| "index0 (JArr []) = Inr JUndefined"
| "index0 (JArr (x # xs)) = Inr x"
| "index0 (JObj kvs) = Inr (case map_of kvs ''0'' of Some v \<Rightarrow> v | None \<Rightarrow> JUndefined)"
| "index0 (JStr []) = Inr JUndefined"
| "index0 (JStr (c # cs)) = Inr (JStr [c])"
| "index0 v = Inr JUndefined"

text \<open>Truthiness, as \<^verbatim>\<open>!v\<close>, \<^verbatim>\<open>a || b\<close> and \<^verbatim>\<open>a && b\<close> read it.\<close>

fun truthy :: "jsval \<Rightarrow> bool" where
  "truthy JUndefined = False"
| "truthy JNull = False"
| "truthy (JBool b) = b"
| "truthy (JNum x) = (x \<noteq> 0)"
| "truthy (JStr s) = (s \<noteq> [])"
| "truthy (JArr xs) = True"
| "truthy (JObj kvs) = True"

text \<open>\<^verbatim>\<open>typeof v === 'object'\<close>, which holds of \<^verbatim>\<open>null\<close> too.\<close>

fun typeof_object :: "jsval \<Rightarrow> bool" where
  "typeof_object JNull = True"
| "typeof_object (JArr xs) = True"
| "typeof_object (JObj kvs) = True"
| "typeof_object v = False"

definition toLowerChar :: "char \<Rightarrow> char" where
  "toLowerChar c =
     (case map_of (zip ''ABCDEFGHIJKLMNOPQRSTUVWXYZ'' ''abcdefghijklmnopqrstuvwxyz'') c of
        Some l \<Rightarrow> l
      | None \<Rightarrow> c)"

definition toLowerCase :: "string \<Rightarrow> string" where
  "toLowerCase s = map toLowerChar s"

text \<open>\<^verbatim>\<open>s.includes(k)\<close>: \<open>k\<close> occurs in \<open>s\<close> as a contiguous run of characters.\<close>

fun includes_str :: "string \<Rightarrow> string \<Rightarrow> bool" where
  "includes_str [] k = (k = [])"
| "includes_str (c # cs) k = (prefix k (c # cs) \<or> includes_str cs k)"

section \<open>Intent classification\<close>

record config =
  openai_key :: "string option"
  openai_baseUrl :: string

text \<open>What the outside world answers during one request: the reply to the classification
  call, the reply to the completion call, the built-in \<^verbatim>\<open>JSON.parse\<close> (\<open>None\<close> when it
  throws a SyntaxError), the next \<^verbatim>\<open>uuidv4()\<close> and the clock. The two reads of the clock
  in one request (the log record and the envelope) get the same value.\<close>

datatype axios_result = NetworkFailure | HttpReply nat jsval

record world =
  classify_reply :: axios_result
  completion_reply :: axios_result
  JSON_parse :: "jsval \<Rightarrow> jsval option"
  uuidv4 :: string
  new_Date :: nat

text \<open>An outbound request, as far as the program fixes it (the prompt text is left out).\<close>

record outbound =
  url :: string
  model :: string
  max_tokens :: nat
  temperature :: real

text \<open>\<^verbatim>\<open>axios.post\<close> resolves with the response on a 2xx status and rejects otherwise.\<close>

definition axios_post :: "axios_result \<Rightarrow> js_error + jsval" where
  "axios_post r =
     (case r of
        NetworkFailure \<Rightarrow> Inl AxiosError
      | HttpReply st d \<Rightarrow> if 200 \<le> st \<and> st < 300 then Inr d else Inl AxiosError)"

text \<open>\<^verbatim>\<open>response.data.choices[0].message.content\<close>\<close>

definition message_content :: "jsval \<Rightarrow> js_error + jsval" where
  "message_content d =
     thenE (thenE (thenE (getprop d ''choices'') index0) (\<lambda>c. getprop c ''message''))
       (\<lambda>m. getprop m ''content'')"

definition unconfigured :: "config \<Rightarrow> bool" where
  "unconfigured cfg =
     (openai_key cfg = None \<or> openai_key cfg = Some [] \<or>
      openai_key cfg = Some ''test_key_placeholder'')"

definition intentObj :: "string \<Rightarrow> real \<Rightarrow> string \<Rightarrow> string \<Rightarrow> string \<Rightarrow> jsval" where
  "intentObj c conf a b p =
     JObj [(''category'', JStr c), (''confidence'', JNum conf), (''action'', JStr a),
           (''business'', JStr b), (''priority'', JStr p)]"

text \<open>The keyword branch of \<^verbatim>\<open>analyzeIntent\<close> (source lines 403 to 412).\<close>

definition keywordIntent :: "string \<Rightarrow> jsval" where
  "keywordIntent message =
     (let lowerMessage = toLowerCase message in
      if includes_str lowerMessage ''email''
        then intentObj ''email'' 0.7 ''email_management'' ''both'' ''medium''
      else if includes_str lowerMessage ''calendar'' \<or> includes_str lowerMessage ''schedule''
        then intentObj ''calendar'' 0.7 ''calendar_management'' ''both'' ''medium''
      else if includes_str lowerMessage ''call'' \<or> includes_str lowerMessage ''phone''
        then intentObj ''phone'' 0.7 ''phone_assistance'' ''both'' ''medium''
      else if includes_str lowerMessage ''research'' \<or> includes_str lowerMessage ''analyze''
        then intentObj ''research'' 0.7 ''research_task'' ''both'' ''medium''
      else if includes_str lowerMessage ''social'' \<or> includes_str lowerMessage ''content''
        then intentObj ''social'' 0.7 ''social_media'' ''both'' ''medium''
      else if includes_str lowerMessage ''client'' \<or> includes_str lowerMessage ''project''
        then intentObj ''client_management'' 0.7 ''client_assistance'' ''both'' ''medium''
      else if includes_str lowerMessage ''prompt'' \<or> includes_str lowerMessage ''generate''
        then intentObj ''prompts'' 0.7 ''prompt_generation'' ''both'' ''medium''
      else if includes_str lowerMessage ''productive'' \<or> includes_str lowerMessage ''goal''
        then intentObj ''productivity'' 0.7 ''productivity_coaching'' ''both'' ''medium''
      else intentObj ''general'' 0.6 ''general_assistance'' ''both'' ''medium'')"

definition syntheticIntent :: jsval where
  "syntheticIntent = intentObj ''general'' 0.5 ''general_assistance'' ''both'' ''medium''"

definition classify_call :: "config \<Rightarrow> outbound" where
  "classify_call cfg =
     \<lparr>url = openai_baseUrl cfg @ ''/chat/completions'', model = ''gpt-4'',
      max_tokens = 300, temperature = 0.3\<rparr>"

text \<open>The body of the \<^verbatim>\<open>try\<close> of \<^verbatim>\<open>analyzeIntent\<close>, with the requests it sends. The
  prompt is built before the \<^verbatim>\<open>try\<close>, from the message and \<^verbatim>\<open>JSON.stringify\<close> of a
  context that came out of a JSON request body, which raises nothing; the context has no
  other use.\<close>

definition analyzeIntent_try ::
    "config \<Rightarrow> world \<Rightarrow> string \<Rightarrow> jsval \<Rightarrow> (js_error + jsval) \<times> outbound list" where
  "analyzeIntent_try cfg w message context =
     (if unconfigured cfg then (Inr (keywordIntent message), [])
      else
        (thenE (thenE (axios_post (classify_reply w)) message_content)
           (\<lambda>c. case JSON_parse w c of None \<Rightarrow> Inl SyntaxError | Some v \<Rightarrow> Inr v),
         [classify_call cfg]))"

definition analyzeIntent ::
    "config \<Rightarrow> world \<Rightarrow> string \<Rightarrow> jsval \<Rightarrow> jsval \<times> outbound list" where
  "analyzeIntent cfg w message context =
     (case analyzeIntent_try cfg w message context of
        (Inr v, sent) \<Rightarrow> (v, sent)
      | (Inl error, sent) \<Rightarrow> (syntheticIntent, sent))"

section \<open>Capabilities\<close>

text \<open>The assistant modules answer with fixed text; Isabelle definitions carry the class
  name before \<^verbatim>\<open>handleRequest\<close>.\<close>

definition EmailManager_handleRequest :: "jsval \<Rightarrow> string \<Rightarrow> jsval" where
  \<open>EmailManager_handleRequest intent message =
     JStr ''I'll help you manage your emails for both Molaison Agency and Molaison AI. What specific email task would you like me to handle?''\<close>

definition CalendarAssistant_handleRequest :: "jsval \<Rightarrow> string \<Rightarrow> jsval" where
  \<open>CalendarAssistant_handleRequest intent message =
     JStr ''I can help you schedule appointments, make reservations, and manage your calendar across both businesses. What would you like me to schedule?''\<close>

definition PhoneAssistant_handleRequest :: "jsval \<Rightarrow> string \<Rightarrow> jsval" where
  \<open>PhoneAssistant_handleRequest intent message =
     JStr ''I can make calls on your behalf for client outreach, follow-ups, or business development. Who would you like me to call?''\<close>

definition ResearchAssistant_handleRequest :: "jsval \<Rightarrow> string \<Rightarrow> jsval" where
  \<open>ResearchAssistant_handleRequest intent message =
     JStr ''I'll conduct comprehensive research using Perplexity AI. What topic or competitor would you like me to research?''\<close>

definition LifeCoach_handleRequest :: "jsval \<Rightarrow> string \<Rightarrow> jsval" where
  \<open>LifeCoach_handleRequest intent message =
     JStr ''As your productivity coach, I can help you optimize your time, set goals, and balance running both Molaison Agency and Molaison AI. What area would you like to focus on?''\<close>

definition SocialMediaManager_handleRequest :: "jsval \<Rightarrow> string \<Rightarrow> jsval" where
  \<open>SocialMediaManager_handleRequest intent message =
     JStr ''I'll manage social media for both your brands. Would you like me to create content, schedule posts, or analyze engagement?''\<close>

definition ClientProjectManager_handleRequest :: "jsval \<Rightarrow> string \<Rightarrow> jsval" where
  \<open>ClientProjectManager_handleRequest intent message =
     JStr ''I'll help manage your client projects and custom builds. What project updates or new client work do you need help with?''\<close>

definition BusinessIntelligence_handleRequest ::
    "jsval \<Rightarrow> string \<Rightarrow> string option \<Rightarrow> jsval" where
  \<open>BusinessIntelligence_handleRequest intent message businessContext =
     JStr ''I'll analyze business performance for both Molaison Agency and Molaison AI. What metrics or insights do you need?''\<close>

text \<open>\<^verbatim>\<open>businessContext || d\<close>: the default stands in for a missing and for an empty
  business context.\<close>

definition orDefault :: "string option \<Rightarrow> string \<Rightarrow> string" where
  "orDefault businessContext d =
     (case businessContext of None \<Rightarrow> d | Some b \<Rightarrow> if b = [] then d else b)"

definition clarifyingQuestion :: string where
  \<open>clarifyingQuestion =
     ''I can help you with AI prompt generation, content calendars, and viral captions. What specific type of content would you like me to create?''\<close>

definition highEndImagePrompts :: "string option \<Rightarrow> jsval list" where
  \<open>highEndImagePrompts businessContext =
     [JStr (''Create a cinematic, high-budget commercial style image of '' @ orDefault businessContext ''your business'' @ ''. Shot with professional lighting, shallow depth of field, and dramatic color grading. Include luxury brand aesthetics, premium materials, and sophisticated composition that conveys exclusivity and high value for business owners.''),
      JStr (''Professional lifestyle photography showing business owners using '' @ orDefault businessContext ''your business'' @ '' services in an aspirational setting. Clean, modern aesthetic with natural lighting. Show the transformation and elevated lifestyle this service enables. Include authentic human emotion and premium environment details.''),
      JStr (''Split-screen comparison image showing 'before and after' or 'problem vs solution' for business owners. Left side shows business frustration/difficulty, right side shows ease/success with '' @ orDefault businessContext ''your business'' @ ''. Professional photography with clear visual storytelling and emotional impact.''),
      JStr (''Professional headshot/environment showing expertise and credibility around '' @ orDefault businessContext ''your business'' @ ''. Include certifications, awards, professional setting, and visual elements that establish authority for business owners. Warm, trustworthy lighting with confidence-inspiring composition.''),
      JStr (''Dynamic collage showing multiple happy business owners using '' @ orDefault businessContext ''your business'' @ ''. Include diverse demographics, genuine expressions, and results/outcomes. Professional montage style with consistent branding and positive energy throughout.'')]\<close>

definition themeObj :: "string \<Rightarrow> string \<Rightarrow> string \<Rightarrow> string \<Rightarrow> string \<Rightarrow> jsval" where
  "themeObj d t c p ot =
     JObj [(''day'', JStr d), (''theme'', JStr t), (''content'', JStr c),
           (''postIdea'', JStr p), (''optimalTime'', JStr ot)]"

definition contentThemes :: "string option \<Rightarrow> jsval list" where
  \<open>contentThemes businessContext =
     [themeObj ''Monday'' ''Motivation Monday''
        (''Inspirational content and success stories for business owners using '' @ orDefault businessContext ''your business'')
        (''Success story: How business owners transformed their results with '' @ orDefault businessContext ''your business'')
        ''8:00 AM'',
      themeObj ''Tuesday'' ''Tips Tuesday''
        ''Educational content and industry insights for business owners''
        (''5 tips business owners need to know about '' @ orDefault businessContext ''your services'')
        ''9:00 AM'',
      themeObj ''Wednesday'' ''Wisdom Wednesday''
        ''Expert advice and problem-solving for business owners''
        (''Industry secrets business owners should know about '' @ orDefault businessContext ''your services'')
        ''11:00 AM'',
      themeObj ''Thursday'' ''Throwback Thursday''
        ''Case studies and testimonials from business owners''
        (''Case study: Business owner success story with '' @ orDefault businessContext ''your business'')
        ''2:00 PM'',
      themeObj ''Friday'' ''Feature Friday''
        ''Service highlights and demos for business owners''
        (''Feature spotlight: How '' @ orDefault businessContext ''your business'' @ '' helps business owners'')
        ''3:00 PM'']\<close>

text \<open>\<^verbatim>\<open>handlePromptRequest\<close>. Nothing in its \<^verbatim>\<open>try\<close> raises on a string message, so the
  \<^verbatim>\<open>catch\<close> (which returns the clarifying question too) has no branch here.\<close>

definition handlePromptRequest :: "string \<Rightarrow> jsval \<Rightarrow> string option \<Rightarrow> jsval" where
  \<open>handlePromptRequest message context businessContext =
     (if includes_str (toLowerCase message) ''image prompt''
         \<or> includes_str (toLowerCase message) ''high-end image''
         \<or> includes_str (toLowerCase message) ''generate''
      then JObj [(''response'', JStr (''Here are 5 professional high-end image prompts for '' @ orDefault businessContext ''your business'' @ '':'')),
                 (''prompts'', JArr (highEndImagePrompts businessContext)),
                 (''promptType'', JStr ''high-end-image'')]
      else if includes_str (toLowerCase message) ''content calendar''
         \<or> includes_str (toLowerCase message) ''weekly calendar''
      then JObj [(''response'', JStr (''Here's your weekly content calendar for '' @ orDefault businessContext ''your business'' @ '':'')),
                 (''calendar'', JArr (contentThemes businessContext))]
      else JStr clarifyingQuestion)\<close>

definition unconfiguredText :: "string \<Rightarrow> string" where
  \<open>unconfiguredText message =
     ''I understand you need assistance with: "'' @ message @ ''". As your executive assistant for Molaison Agency and Molaison AI, I'm ready to help with business management, client projects, and various tasks. However, advanced AI features require API configuration. Please let me know what specific assistance you need!''\<close>

definition generalApology :: string where
  \<open>generalApology =
     ''I understand you need assistance. Let me help you with that. Could you provide more specific details about what you'd like me to handle?''\<close>

definition completion_call :: "config \<Rightarrow> outbound" where
  "completion_call cfg =
     \<lparr>url = openai_baseUrl cfg @ ''/chat/completions'', model = ''gpt-4'',
      max_tokens = 500, temperature = 0.7\<rparr>"

definition handleGeneralRequest ::
    "config \<Rightarrow> world \<Rightarrow> string \<Rightarrow> jsval \<Rightarrow> jsval \<times> outbound list" where
  "handleGeneralRequest cfg w message context =
     (if unconfigured cfg then (JStr (unconfiguredText message), [])
      else
        (case thenE (axios_post (completion_reply w)) message_content of
           Inr v \<Rightarrow> (v, [completion_call cfg])
         | Inl error \<Rightarrow> (JStr generalApology, [completion_call cfg])))"

section \<open>The conversation log and the dispatcher\<close>

record conversation =
  rec_id :: string
  rec_message :: string
  rec_response :: jsval
  rec_intent :: jsval
  rec_timestamp :: nat
  rec_business :: jsval

record assistant =
  apis :: config
  conversations :: "conversation list"

text \<open>\<^verbatim>\<open>xs.slice(-n)\<close>: the last \<open>n\<close> elements, all of them when there are fewer.\<close>

definition slice_last :: "nat \<Rightarrow> 'a list \<Rightarrow> 'a list" where
  "slice_last n xs = drop (length xs - n) xs"

text \<open>The record \<^verbatim>\<open>logConversation\<close> builds, \<open>b\<close> being the value read from
  \<^verbatim>\<open>intent.business\<close>.\<close>

definition conversationRecord ::
    "world \<Rightarrow> string \<Rightarrow> jsval \<Rightarrow> jsval \<Rightarrow> jsval \<Rightarrow> conversation" where
  "conversationRecord w message response intent b =
     \<lparr>rec_id = uuidv4 w, rec_message = message, rec_response = response,
      rec_intent = intent, rec_timestamp = new_Date w,
      rec_business = (if truthy b then b else JStr ''general'')\<rparr>"

text \<open>\<^verbatim>\<open>logConversation\<close>: the record is built, pushed, and the log cut to its last 1000
  records when it is longer.\<close>

definition logConversation ::
    "world \<Rightarrow> conversation list \<Rightarrow> string \<Rightarrow> jsval \<Rightarrow> jsval \<Rightarrow> js_error + conversation list" where
  "logConversation w convs message response intent =
     thenE (getprop intent ''business'')
       (\<lambda>b. let pushed = convs @ [conversationRecord w message response intent b]
            in Inr (if length pushed > 1000 then slice_last 1000 pushed else pushed))"

datatype envelope =
    Success_envelope jsval jsval jsval jsval jsval nat
  | Failure_envelope string string

text \<open>The fields of \<open>Success_envelope\<close> are \<^verbatim>\<open>response\<close>, \<^verbatim>\<open>prompts\<close>, \<^verbatim>\<open>calendar\<close>,
  \<^verbatim>\<open>caption\<close>, \<^verbatim>\<open>intent\<close> and \<^verbatim>\<open>timestamp\<close>; those of \<open>Failure_envelope\<close> are
  \<^verbatim>\<open>error\<close> and \<^verbatim>\<open>fallback\<close>.\<close>

fun success :: "envelope \<Rightarrow> bool" where
  "success (Success_envelope r p c cap i t) = True"
| "success (Failure_envelope e f) = False"

record http_reply =
  status :: nat
  json :: envelope

text \<open>\<^verbatim>\<open>response && response.k ? response.k : undefined\<close>\<close>

definition optionalField :: "jsval \<Rightarrow> string \<Rightarrow> js_error + jsval" where
  "optionalField response k =
     (if truthy response
      then thenE (getprop response k) (\<lambda>v. Inr (if truthy v then v else JUndefined))
      else Inr JUndefined)"

text \<open>The object handed to \<^verbatim>\<open>res.json\<close> on the success path, its fields evaluated in the
  order of the source.\<close>

definition successBody :: "jsval \<Rightarrow> jsval \<Rightarrow> nat \<Rightarrow> js_error + envelope" where
  "successBody response intent now =
     thenE (if typeof_object response then getprop response ''response'' else Inr response)
       (\<lambda>r. thenE (optionalField response ''prompts'')
       (\<lambda>p. thenE (optionalField response ''calendar'')
       (\<lambda>c. thenE (optionalField response ''caption'')
       (\<lambda>cap. thenE (getprop intent ''category'')
       (\<lambda>i. Inr (Success_envelope r p c cap i now))))))"

definition failureReply :: http_reply where
  \<open>failureReply =
     \<lparr>status = 500,
      json = Failure_envelope ''Failed to process message''
        ''I'm having trouble processing that request. Could you please rephrase or try again?''\<rparr>\<close>

text \<open>The \<^verbatim>\<open>switch (intent.category)\<close> of \<^verbatim>\<open>handleChatMessage\<close>.\<close>

definition switch_category ::
    "config \<Rightarrow> world \<Rightarrow> jsval \<Rightarrow> jsval \<Rightarrow> string \<Rightarrow> jsval \<Rightarrow> string option
      \<Rightarrow> jsval \<times> outbound list" where
  "switch_category cfg w category intent message context businessContext =
     (if category = JStr ''email'' then (EmailManager_handleRequest intent message, [])
      else if category = JStr ''calendar'' then (CalendarAssistant_handleRequest intent message, [])
      else if category = JStr ''phone'' then (PhoneAssistant_handleRequest intent message, [])
      else if category = JStr ''research'' then (ResearchAssistant_handleRequest intent message, [])
      else if category = JStr ''social'' then (SocialMediaManager_handleRequest intent message, [])
      else if category = JStr ''client_management''
        then (ClientProjectManager_handleRequest intent message, [])
      else if category = JStr ''business_intelligence''
        then (BusinessIntelligence_handleRequest intent message businessContext, [])
      else if category = JStr ''productivity'' then (LifeCoach_handleRequest intent message, [])
      else if category = JStr ''prompts'' \<or> category = JStr ''content''
        then (handlePromptRequest message context businessContext, [])
      else handleGeneralRequest cfg w message context)"

text \<open>\<^verbatim>\<open>handleChatMessage\<close> on the request body \<^verbatim>\<open>{message, context, businessContext}\<close>:
  the reply written to \<^verbatim>\<open>res\<close>, the assistant afterwards and the requests sent. Every
  \<open>Inl\<close> below is an exception reaching the \<^verbatim>\<open>catch\<close> of the handler; what was
  written to the log before it stays written.\<close>

definition handleChatMessage ::
    "assistant \<Rightarrow> world \<Rightarrow> string \<Rightarrow> jsval \<Rightarrow> string option
      \<Rightarrow> http_reply \<times> assistant \<times> outbound list" where
  "handleChatMessage a w message context businessContext =
     (case analyzeIntent (apis a) w message context of
        (intent, sent1) \<Rightarrow>
          (case getprop intent ''category'' of
             Inl error \<Rightarrow> (failureReply, a, sent1)
           | Inr category \<Rightarrow>
               (case switch_category (apis a) w category intent message context businessContext of
                  (response, sent2) \<Rightarrow>
                    (case logConversation w (conversations a) message response intent of
                       Inl error \<Rightarrow> (failureReply, a, sent1 @ sent2)
                     | Inr convs \<Rightarrow>
                         (case successBody response intent (new_Date w) of
                            Inl error \<Rightarrow>
                              (failureReply, a\<lparr>conversations := convs\<rparr>, sent1 @ sent2)
                          | Inr body \<Rightarrow>
                              (\<lparr>status = 200, json = body\<rparr>, a\<lparr>conversations := convs\<rparr>,
                               sent1 @ sent2))))))"

section \<open>The classifier the specification describes\<close>

text \<open>The reference the keyword branch is compared with, written from the specification:
  a case-insensitive substring search over an ordered list of keyword sets, one set per
  category, the first matching set winning.\<close>

record ref_intent =
  ref_category :: string
  ref_confidence :: real
  ref_business :: "string option"
  ref_priority :: "string option"

definition ci_occurs :: "string \<Rightarrow> string \<Rightarrow> bool" where
  "ci_occurs k m = (\<exists>ps u ss. m = ps @ u @ ss \<and> toLowerCase u = toLowerCase k)"

definition keyword_table :: "(string list \<times> string) list" where
  "keyword_table =
     [([''email''], ''email''),
      ([''calendar'', ''schedule''], ''calendar''),
      ([''call'', ''phone''], ''phone''),
      ([''research'', ''analyze''], ''research''),
      ([''social'', ''content''], ''social''),
      ([''client'', ''project''], ''client_management''),
      ([''prompt'', ''generate''], ''prompts''),
      ([''productive'', ''goal''], ''productivity'')]"

definition reference_classify :: "string \<Rightarrow> ref_intent" where
  "reference_classify m =
     (case find (\<lambda>(ks, c). \<exists>k \<in> set ks. ci_occurs k m) keyword_table of
        Some (ks, c) \<Rightarrow>
          \<lparr>ref_category = c, ref_confidence = 0.7,
           ref_business = Some ''both'', ref_priority = Some ''medium''\<rparr>
      | None \<Rightarrow>
          \<lparr>ref_category = ''general'', ref_confidence = 0.6,
           ref_business = None, ref_priority = None\<rparr>)"

text \<open>An intent object agrees with a reference intent when it has the category and the
  confidence of the reference, and its business and priority where the reference fixes
  them.\<close>

definition agrees :: "jsval \<Rightarrow> ref_intent \<Rightarrow> bool" where
  "agrees v r =
     (getprop v ''category'' = Inr (JStr (ref_category r)) \<and>
      getprop v ''confidence'' = Inr (JNum (ref_confidence r)) \<and>
      (case ref_business r of None \<Rightarrow> True | Some b \<Rightarrow> getprop v ''business'' = Inr (JStr b)) \<and>
      (case ref_priority r of None \<Rightarrow> True | Some p \<Rightarrow> getprop v ''priority'' = Inr (JStr p)))"

section \<open>Example inputs\<close>

text \<open>Concrete configurations and worlds on which the theorems below are instantiated.
  \<open>example_parse\<close> is \<^verbatim>\<open>JSON.parse\<close> on the three texts the examples use.\<close>

definition offline_assistant :: assistant where
  "offline_assistant =
     \<lparr>apis = \<lparr>openai_key = None, openai_baseUrl = ''https://api.openai.com/v1''\<rparr>,
      conversations = []\<rparr>"

definition live_assistant :: assistant where
  "live_assistant =
     \<lparr>apis = \<lparr>openai_key = Some ''sk-live-0123456789'',
              openai_baseUrl = ''https://api.openai.com/v1''\<rparr>,
      conversations = []\<rparr>"

definition example_parse :: "jsval \<Rightarrow> jsval option" where
  \<open>example_parse c =
     (if c = JStr ''{}'' then Some (JObj [])
      else if c = JStr ''null'' then Some JNull
      else if c = JStr ''{"category":"general","confidence":0.9,"action":"chat","business":"ai","priority":"low"}''
        then Some (intentObj ''general'' 0.9 ''chat'' ''ai'' ''low'')
      else None)\<close>

text \<open>A chat-completion response body whose first choice carries the content \<open>c\<close>.\<close>

definition completion_body :: "jsval \<Rightarrow> jsval" where
  "completion_body c = JObj [(''choices'', JArr [JObj [(''message'', JObj [(''content'', c)])]])]"

definition example_world :: "axios_result \<Rightarrow> axios_result \<Rightarrow> world" where
  "example_world classification completion =
     \<lparr>classify_reply = classification, completion_reply = completion,
      JSON_parse = example_parse, uuidv4 = ''0b5c7e0e-6a55-4c3b-9d0f-3a1f6f2f9a11'',
      new_Date = 1700000000\<rparr>"

definition example_record :: conversation where
  "example_record =
     \<lparr>rec_id = ''id-0'', rec_message = ''earlier'', rec_response = JStr ''ok'',
      rec_intent = syntheticIntent, rec_timestamp = 0, rec_business = JStr ''both''\<rparr>"

section \<open>Strings\<close>

lemma includes_str_sublist: "includes_str s k = sublist k s"
  by (induction s) (auto simp: sublist_Cons_right)

lemma includes_str_append: "includes_str (ps @ k @ ss) k"
  by (simp add: includes_str_sublist)

lemma toLowerCase_append: "toLowerCase (xs @ ys) = toLowerCase xs @ toLowerCase ys"
  by (simp add: toLowerCase_def)

text \<open>The search of the specification is the search of the code: lower the message, then
  look for the lowered keyword.\<close>

lemma ci_occurs_lower [code]: "ci_occurs k m = includes_str (toLowerCase m) (toLowerCase k)"
proof
  assume "ci_occurs k m"
  then obtain ps u ss where "m = ps @ u @ ss" "toLowerCase u = toLowerCase k"
    by (auto simp: ci_occurs_def)
  then have "toLowerCase m = toLowerCase ps @ toLowerCase k @ toLowerCase ss"
    by (simp add: toLowerCase_append)
  then show "includes_str (toLowerCase m) (toLowerCase k)"
    unfolding includes_str_sublist sublist_def by blast
next
  assume "includes_str (toLowerCase m) (toLowerCase k)"
  then obtain ps ss where "map toLowerChar m = ps @ toLowerCase k @ ss"
    unfolding includes_str_sublist sublist_def toLowerCase_def by auto
  then obtain us vs where 1: "m = us @ vs" "map toLowerChar vs = toLowerCase k @ ss"
    by (metis map_eq_append_conv)
  from 1(2) obtain u ss' where 2: "vs = u @ ss'" "map toLowerChar u = toLowerCase k"
    by (metis map_eq_append_conv)
  from 1(1) 2 have "m = us @ u @ ss' \<and> map toLowerChar u = toLowerCase k" by simp
  then show "ci_occurs k m"
    unfolding ci_occurs_def toLowerCase_def by blast
qed

lemma keyword_lower:
  "toLowerCase ''email'' = ''email''" "toLowerCase ''calendar'' = ''calendar''"
  "toLowerCase ''schedule'' = ''schedule''" "toLowerCase ''call'' = ''call''"
  "toLowerCase ''phone'' = ''phone''" "toLowerCase ''research'' = ''research''"
  "toLowerCase ''analyze'' = ''analyze''" "toLowerCase ''social'' = ''social''"
  "toLowerCase ''content'' = ''content''" "toLowerCase ''client'' = ''client''"
  "toLowerCase ''project'' = ''project''" "toLowerCase ''prompt'' = ''prompt''"
  "toLowerCase ''generate'' = ''generate''" "toLowerCase ''productive'' = ''productive''"
  "toLowerCase ''goal'' = ''goal''"
  by (simp_all add: toLowerCase_def toLowerChar_def)

section \<open>The fallback classifier\<close>

text \<open>
  Claim C1. For every message the keyword branch of \<^verbatim>\<open>analyzeIntent\<close> returns what the
  reference classifier of the specification returns: the category of the first keyword set,
  in the order email, calendar/schedule, call/phone, research/analyze, social/content,
  client/project, prompt/generate, productive/goal, one of whose keywords occurs in the
  message whatever the case of its letters, with confidence 0.7, business "both" and
  priority "medium"; and category "general" with confidence 0.6 when no keyword occurs.
  Both sides are functions of the message alone.
\<close>

theorem keywordIntent_refines_reference:
  "agrees (keywordIntent message) (reference_classify message)"
  by (simp add: reference_classify_def keyword_table_def ci_occurs_lower keyword_lower
      keywordIntent_def Let_def agrees_def intentObj_def)

theorem keywordIntent_refines_reference_witness:
  "agrees (keywordIntent ''Please SCHEDULE a call'') (reference_classify ''Please SCHEDULE a call'')
   \<and> reference_classify ''Please SCHEDULE a call'' =
       \<lparr>ref_category = ''calendar'', ref_confidence = 0.7,
        ref_business = Some ''both'', ref_priority = Some ''medium''\<rparr>
   \<and> keywordIntent ''Please SCHEDULE a call'' =
       intentObj ''calendar'' 0.7 ''calendar_management'' ''both'' ''medium''"
proof -
  have r: "reference_classify ''Please SCHEDULE a call'' =
       \<lparr>ref_category = ''calendar'', ref_confidence = 0.7,
        ref_business = Some ''both'', ref_priority = Some ''medium''\<rparr>"
    by code_simp
  have k: "keywordIntent ''Please SCHEDULE a call'' =
       intentObj ''calendar'' 0.7 ''calendar_management'' ''both'' ''medium''"
    by code_simp
  show ?thesis
    by (intro conjI keywordIntent_refines_reference r k)
qed

text \<open>
  Claim C10. For every message the intent of the keyword branch has business "both",
  priority "medium" and an action label that is not empty, also when no keyword occurs.
\<close>

theorem keywordIntent_business_priority_action:
  "getprop (keywordIntent message) ''business'' = Inr (JStr ''both'') \<and>
   getprop (keywordIntent message) ''priority'' = Inr (JStr ''medium'') \<and>
   (\<exists>a. getprop (keywordIntent message) ''action'' = Inr (JStr a) \<and> a \<noteq> [])"
  by (simp add: keywordIntent_def Let_def intentObj_def)

theorem keywordIntent_business_priority_action_witness:
  "getprop (keywordIntent ''what is the weather'') ''business'' = Inr (JStr ''both'') \<and>
   getprop (keywordIntent ''what is the weather'') ''priority'' = Inr (JStr ''medium'') \<and>
   (\<exists>a. getprop (keywordIntent ''what is the weather'') ''action'' = Inr (JStr a) \<and> a \<noteq> []) \<and>
   keywordIntent ''what is the weather'' =
     intentObj ''general'' 0.6 ''general_assistance'' ''both'' ''medium''"
proof -
  have k: "keywordIntent ''what is the weather'' =
     intentObj ''general'' 0.6 ''general_assistance'' ''both'' ''medium''"
    by code_simp
  from keywordIntent_business_priority_action [of "''what is the weather''"] k
  show ?thesis by (simp only: simp_thms)
qed

text \<open>
  Claim C7. When the credential is absent, empty or the placeholder
  \<^verbatim>\<open>test_key_placeholder\<close>, \<^verbatim>\<open>analyzeIntent\<close> returns the intent of the keyword branch
  and sends no request, whatever the remote service would have answered.
\<close>

theorem unconfigured_short_circuit:
  "unconfigured cfg \<Longrightarrow> analyzeIntent cfg w message context = (keywordIntent message, [])"
  by (simp add: analyzeIntent_def analyzeIntent_try_def)

theorem unconfigured_short_circuit_witness:
  "unconfigured \<lparr>openai_key = Some ''test_key_placeholder'', openai_baseUrl = ''https://api.openai.com/v1''\<rparr>
   \<and> analyzeIntent \<lparr>openai_key = Some ''test_key_placeholder'', openai_baseUrl = ''https://api.openai.com/v1''\<rparr>
        (example_world (HttpReply 200 (completion_body (JStr ''null''))) NetworkFailure)
        ''email the client'' JUndefined
      = (intentObj ''email'' 0.7 ''email_management'' ''both'' ''medium'', [])"
proof -
  have h: "unconfigured \<lparr>openai_key = Some ''test_key_placeholder'', openai_baseUrl = ''https://api.openai.com/v1''\<rparr>"
    by (simp add: unconfigured_def)
  have k: "keywordIntent ''email the client'' =
     intentObj ''email'' 0.7 ''email_management'' ''both'' ''medium''"
    by code_simp
  from unconfigured_short_circuit [OF h, of
        "example_world (HttpReply 200 (completion_body (JStr ''null''))) NetworkFailure"
        "''email the client''" JUndefined]
  have "analyzeIntent \<lparr>openai_key = Some ''test_key_placeholder'', openai_baseUrl = ''https://api.openai.com/v1''\<rparr>
        (example_world (HttpReply 200 (completion_body (JStr ''null''))) NetworkFailure)
        ''email the client'' JUndefined
      = (intentObj ''email'' 0.7 ''email_management'' ''both'' ''medium'', [])"
    by (simp only: k)
  with h show ?thesis by (rule conjI)
qed

section \<open>The conversation log\<close>

text \<open>
  Claim C3. One call of \<^verbatim>\<open>logConversation\<close> with an intent that is an object appends one
  record and leaves the last 1000 records of the extended log: a log of at most 1000
  records stays at most 1000 long, and a log of exactly 1000 records loses its oldest
  record and gains the new one at the end.
\<close>

theorem logConversation_sliding_window:
  assumes "intent \<noteq> JUndefined" and "intent \<noteq> JNull"
  shows "\<exists>b convs'.
           getprop intent ''business'' = Inr b \<and>
           logConversation w convs message response intent = Inr convs' \<and>
           (length convs \<le> 1000 \<longrightarrow> length convs' \<le> 1000) \<and>
           (length convs = 1000 \<longrightarrow>
              convs' = tl convs @ [conversationRecord w message response intent b]) \<and>
           convs' = drop (length convs + 1 - 1000)
                      (convs @ [conversationRecord w message response intent b])"
proof -
  from assms obtain b where b: "getprop intent ''business'' = Inr b"
    by (cases intent) simp_all
  let ?r = "conversationRecord w message response intent b"
  have log: "logConversation w convs message response intent =
      Inr (if length convs + 1 > 1000 then slice_last 1000 (convs @ [?r]) else convs @ [?r])"
    by (simp add: logConversation_def thenE_def b Let_def)
  show ?thesis
  proof (cases "length convs + 1 > 1000")
    case True
    have "length convs = 1000 \<Longrightarrow> drop (Suc 0) convs = tl convs"
      by (simp add: drop_Suc)
    with True show ?thesis
      by (auto simp: log b slice_last_def drop_Suc)
  next
    case False
    then show ?thesis by (simp add: log b)
  qed
qed

theorem logConversation_sliding_window_witness:
  "syntheticIntent \<noteq> JUndefined \<and> syntheticIntent \<noteq> JNull \<and>
   length (replicate 1000 example_record) = 1000 \<and>
   (\<exists>convs'. logConversation (example_world NetworkFailure NetworkFailure)
        (replicate 1000 example_record) ''hello'' (JStr ''hi'') syntheticIntent = Inr convs' \<and>
      length convs' \<le> 1000 \<and>
      convs' = tl (replicate 1000 example_record) @
        [conversationRecord (example_world NetworkFailure NetworkFailure) ''hello'' (JStr ''hi'')
           syntheticIntent (JStr ''both'')])"
proof -
  let ?w = "example_world NetworkFailure NetworkFailure"
  let ?L = "replicate 1000 example_record"
  have h1: "syntheticIntent \<noteq> JUndefined" and h2: "syntheticIntent \<noteq> JNull"
    by (simp_all add: syntheticIntent_def intentObj_def)
  have b: "getprop syntheticIntent ''business'' = Inr (JStr ''both'')"
    by (simp add: syntheticIntent_def intentObj_def)
  have len: "length ?L = 1000"
    by (simp only: length_replicate)
  have le: "length ?L \<le> 1000"
    by (simp only: length_replicate le_refl)
  from logConversation_sliding_window [OF h1 h2, of ?w ?L "''hello''" "JStr ''hi''"]
  obtain b' convs' where
    1: "getprop syntheticIntent ''business'' = Inr b'" and
    2: "logConversation ?w ?L ''hello'' (JStr ''hi'') syntheticIntent = Inr convs'" and
    3: "length ?L \<le> 1000 \<longrightarrow> length convs' \<le> 1000" and
    4: "length ?L = 1000 \<longrightarrow>
          convs' = tl ?L @ [conversationRecord ?w ''hello'' (JStr ''hi'') syntheticIntent b']"
    by (elim exE conjE)
  from 1 b have b': "b' = JStr ''both''" by (simp only: sum.inject)
  from 3 le have 5: "length convs' \<le> 1000" by (rule mp)
  from 4 len have "convs' = tl ?L @ [conversationRecord ?w ''hello'' (JStr ''hi'') syntheticIntent b']"
    by (rule mp)
  then have 6: "convs' = tl ?L @ [conversationRecord ?w ''hello'' (JStr ''hi'') syntheticIntent (JStr ''both'')]"
    by (simp only: b')
  show ?thesis
  proof (intro conjI exI)
    show "syntheticIntent \<noteq> JUndefined" by (rule h1)
    show "syntheticIntent \<noteq> JNull" by (rule h2)
    show "length ?L = 1000" by (rule len)
    show "logConversation ?w ?L ''hello'' (JStr ''hi'') syntheticIntent = Inr convs'" by (rule 2)
    show "length convs' \<le> 1000" by (rule 5)
    show "convs' = tl ?L @ [conversationRecord ?w ''hello'' (JStr ''hi'') syntheticIntent (JStr ''both'')]"
      by (rule 6)
  qed
qed


section \<open>The remote classifier\<close>

text \<open>With a credential, \<^verbatim>\<open>analyzeIntent\<close> sends one request and returns what
  \<^verbatim>\<open>JSON.parse\<close> makes of the content, or the synthetic intent when anything raised.\<close>

lemma classification_result:
  "\<not> unconfigured cfg \<Longrightarrow>
   analyzeIntent cfg w message context =
     (case thenE (thenE (axios_post (classify_reply w)) message_content)
             (\<lambda>c. case JSON_parse w c of None \<Rightarrow> Inl SyntaxError | Some v \<Rightarrow> Inr v) of
        Inr v \<Rightarrow> v | Inl e \<Rightarrow> syntheticIntent,
      [classify_call cfg])"
  by (simp add: analyzeIntent_def analyzeIntent_try_def split: sum.splits)

text \<open>
  Claim C2, as amended. With a credential configured, when the classification call fails by
  a transport error, by a status outside 200 to 299, by a response body in which
  \<^verbatim>\<open>choices[0].message.content\<close> cannot be read, or by content that \<^verbatim>\<open>JSON.parse\<close>
  rejects, \<^verbatim>\<open>analyzeIntent\<close> raises nothing and returns exactly the synthetic intent
  (category general, confidence 0.5, action general_assistance, business both, priority
  medium).
\<close>

theorem remote_failure_gives_synthetic:
  assumes "\<not> unconfigured cfg"
    and "classify_reply w = NetworkFailure
       \<or> (\<exists>st d. classify_reply w = HttpReply st d \<and> \<not> (200 \<le> st \<and> st < 300))
       \<or> (\<exists>st d e. classify_reply w = HttpReply st d \<and> 200 \<le> st \<and> st < 300 \<and>
             message_content d = Inl e)
       \<or> (\<exists>st d c. classify_reply w = HttpReply st d \<and> 200 \<le> st \<and> st < 300 \<and>
             message_content d = Inr c \<and> JSON_parse w c = None)"
  shows "analyzeIntent cfg w message context = (syntheticIntent, [classify_call cfg])"
proof -
  from assms(2) have "\<exists>e. thenE (thenE (axios_post (classify_reply w)) message_content)
             (\<lambda>c. case JSON_parse w c of None \<Rightarrow> Inl SyntaxError | Some v \<Rightarrow> Inr v) = Inl e"
    by (elim disjE exE conjE) (auto simp: axios_post_def thenE_def)
  then show ?thesis
    using assms(1) by (auto simp: classification_result)
qed

theorem remote_failure_gives_synthetic_witness:
  "\<not> unconfigured (apis live_assistant) \<and>
   (\<exists>st d c. classify_reply (example_world
         (HttpReply 200 (completion_body (JStr ''Sure! This looks like an email request.'')))
         NetworkFailure) = HttpReply st d \<and> 200 \<le> st \<and> st < 300 \<and>
       message_content d = Inr c \<and>
       JSON_parse (example_world
         (HttpReply 200 (completion_body (JStr ''Sure! This looks like an email request.'')))
         NetworkFailure) c = None) \<and>
   analyzeIntent (apis live_assistant)
     (example_world
         (HttpReply 200 (completion_body (JStr ''Sure! This looks like an email request.'')))
         NetworkFailure)
     ''email the client'' JUndefined
   = (syntheticIntent, [classify_call (apis live_assistant)])"
proof -
  let ?w = "example_world
         (HttpReply 200 (completion_body (JStr ''Sure! This looks like an email request.'')))
         NetworkFailure"
  have h1: "\<not> unconfigured (apis live_assistant)"
    by (simp add: unconfigured_def live_assistant_def)
  have h4: "\<exists>st d c. classify_reply ?w = HttpReply st d \<and> 200 \<le> st \<and> st < 300 \<and>
       message_content d = Inr c \<and> JSON_parse ?w c = None"
    by (simp add: example_world_def completion_body_def message_content_def thenE_def
        example_parse_def)
  have hd: "classify_reply ?w = NetworkFailure
       \<or> (\<exists>st d. classify_reply ?w = HttpReply st d \<and> \<not> (200 \<le> st \<and> st < 300))
       \<or> (\<exists>st d e. classify_reply ?w = HttpReply st d \<and> 200 \<le> st \<and> st < 300 \<and>
             message_content d = Inl e)
       \<or> (\<exists>st d c. classify_reply ?w = HttpReply st d \<and> 200 \<le> st \<and> st < 300 \<and>
             message_content d = Inr c \<and> JSON_parse ?w c = None)"
    by (intro disjI2 h4)
  show ?thesis
    by (intro conjI h1 h4 remote_failure_gives_synthetic [OF h1 hd])
qed

text \<open>
  Claim C2, as stated, fails: content that is valid JSON but no intent is returned as it was
  parsed. The content \<^verbatim>\<open>{}\<close> parses to the empty object, and \<^verbatim>\<open>analyzeIntent\<close> returns
  the empty object, not the synthetic intent.
\<close>

theorem parsed_content_returned_unchecked:
  "analyzeIntent (apis live_assistant)
     (example_world (HttpReply 200 (completion_body (JStr ''{}''))) NetworkFailure)
     ''hello'' JUndefined
   = (JObj [], [classify_call (apis live_assistant)])
   \<and> JObj [] \<noteq> syntheticIntent"
  by (simp add: analyzeIntent_def analyzeIntent_try_def unconfigured_def live_assistant_def
      example_world_def completion_body_def axios_post_def message_content_def thenE_def
      example_parse_def syntheticIntent_def intentObj_def)

section \<open>The content-generation capability\<close>

lemma orDefault_Some: "bc \<noteq> [] \<Longrightarrow> orDefault (Some bc) d = bc"
  by (simp add: orDefault_def)

lemma themeObj_postIdea:
  "bc \<noteq> [] \<Longrightarrow>
   \<exists>p. getprop (themeObj d t c (ps @ bc @ ss) ot) ''postIdea'' = Inr (JStr p) \<and> p \<noteq> [] \<and>
       includes_str p bc"
  by (simp add: themeObj_def includes_str_append)

lemma themeObj_postIdea_end:
  "bc \<noteq> [] \<Longrightarrow>
   \<exists>p. getprop (themeObj d t c (ps @ bc) ot) ''postIdea'' = Inr (JStr p) \<and> p \<noteq> [] \<and>
       includes_str p bc"
  using themeObj_postIdea [of bc d t c ps "[]" ot] by simp

lemma themeObj_day: "getprop (themeObj d t c p ot) ''day'' = Inr (JStr d)"
  by (simp add: themeObj_def)

text \<open>
  Claim C5, as stated, fails: the message "generate a content calendar" contains
  "generate", which the first rule of \<^verbatim>\<open>handlePromptRequest\<close> tests before the calendar
  rule, so with business context "Acme" the result is the image-prompt object: it has the
  prompt type high-end-image and no calendar.
\<close>

theorem generate_a_content_calendar_gives_prompts:
  "getprop (handlePromptRequest ''generate a content calendar'' JUndefined (Some ''Acme''))
     ''calendar'' = Inr JUndefined
   \<and> getprop (handlePromptRequest ''generate a content calendar'' JUndefined (Some ''Acme''))
     ''promptType'' = Inr (JStr ''high-end-image'')"
  by code_simp

text \<open>
  Claim C5, as amended. For a message that contains "content calendar" or "weekly
  calendar" and none of "image prompt", "high-end image" and "generate" (in any case of
  letters), and a business context that is not empty, \<^verbatim>\<open>handlePromptRequest\<close> returns an
  object whose calendar has exactly 5 entries, for Monday to Friday in this order, each
  with a post idea that is not empty and contains the business context.
\<close>

theorem content_calendar_entries:
  assumes "includes_str (toLowerCase message) ''content calendar''
           \<or> includes_str (toLowerCase message) ''weekly calendar''"
    and "\<not> includes_str (toLowerCase message) ''image prompt''"
    and "\<not> includes_str (toLowerCase message) ''high-end image''"
    and "\<not> includes_str (toLowerCase message) ''generate''"
    and "bc \<noteq> []"
  shows "\<exists>entries.
           getprop (handlePromptRequest message context (Some bc)) ''calendar'' = Inr (JArr entries) \<and>
           length entries = 5 \<and>
           map (\<lambda>e. getprop e ''day'') entries =
             [Inr (JStr ''Monday''), Inr (JStr ''Tuesday''), Inr (JStr ''Wednesday''),
              Inr (JStr ''Thursday''), Inr (JStr ''Friday'')] \<and>
           (\<forall>e \<in> set entries.
              \<exists>p. getprop e ''postIdea'' = Inr (JStr p) \<and> p \<noteq> [] \<and> includes_str p bc)"
proof -
  note od = orDefault_Some [OF assms(5)]
  from assms(1-4) have cal:
    "getprop (handlePromptRequest message context (Some bc)) ''calendar''
       = Inr (JArr (contentThemes (Some bc)))"
    by (simp add: handlePromptRequest_def)
  have len: "length (contentThemes (Some bc)) = 5"
    by (simp add: contentThemes_def)
  have days: "map (\<lambda>e. getprop e ''day'') (contentThemes (Some bc)) =
             [Inr (JStr ''Monday''), Inr (JStr ''Tuesday''), Inr (JStr ''Wednesday''),
              Inr (JStr ''Thursday''), Inr (JStr ''Friday'')]"
    by (simp add: contentThemes_def themeObj_day)
  have ideas: "list_all (\<lambda>e. \<exists>p. getprop e ''postIdea'' = Inr (JStr p) \<and> p \<noteq> [] \<and> includes_str p bc)
      (contentThemes (Some bc))"
    unfolding contentThemes_def od list.pred_inject
    by (intro conjI themeObj_postIdea [OF assms(5)] themeObj_postIdea_end [OF assms(5)])
      (simp only: list.pred_inject)
  then have all: "\<forall>e \<in> set (contentThemes (Some bc)).
      \<exists>p. getprop e ''postIdea'' = Inr (JStr p) \<and> p \<noteq> [] \<and> includes_str p bc"
    by (simp only: list_all_iff)
  show ?thesis
    by (rule exI [of _ "contentThemes (Some bc)"]) (intro conjI cal len days all)
qed

theorem content_calendar_entries_witness:
  "(includes_str (toLowerCase ''Content Calendar please'') ''content calendar''
      \<or> includes_str (toLowerCase ''Content Calendar please'') ''weekly calendar'')
   \<and> \<not> includes_str (toLowerCase ''Content Calendar please'') ''image prompt''
   \<and> \<not> includes_str (toLowerCase ''Content Calendar please'') ''high-end image''
   \<and> \<not> includes_str (toLowerCase ''Content Calendar please'') ''generate''
   \<and> ''Acme'' \<noteq> []
   \<and> (\<exists>entries.
           getprop (handlePromptRequest ''Content Calendar please'' JUndefined (Some ''Acme''))
             ''calendar'' = Inr (JArr entries) \<and>
           length entries = 5 \<and>
           map (\<lambda>e. getprop e ''day'') entries =
             [Inr (JStr ''Monday''), Inr (JStr ''Tuesday''), Inr (JStr ''Wednesday''),
              Inr (JStr ''Thursday''), Inr (JStr ''Friday'')] \<and>
           (\<forall>e \<in> set entries.
              \<exists>p. getprop e ''postIdea'' = Inr (JStr p) \<and> p \<noteq> [] \<and> includes_str p ''Acme''))"
proof -
  have h1: "includes_str (toLowerCase ''Content Calendar please'') ''content calendar''
      \<or> includes_str (toLowerCase ''Content Calendar please'') ''weekly calendar''"
    by code_simp
  have h2: "\<not> includes_str (toLowerCase ''Content Calendar please'') ''image prompt''"
    by code_simp
  have h3: "\<not> includes_str (toLowerCase ''Content Calendar please'') ''high-end image''"
    by code_simp
  have h4: "\<not> includes_str (toLowerCase ''Content Calendar please'') ''generate''"
    by code_simp
  have h5: "''Acme'' \<noteq> []" by simp
  show ?thesis
    by (intro conjI h1 h2 h3 h4 h5 content_calendar_entries [OF h1 h2 h3 h4 h5])
qed

section \<open>The dispatcher\<close>

lemma getprop_intentObj:
  "getprop (intentObj c conf a b p) ''category'' = Inr (JStr c)"
  "getprop (intentObj c conf a b p) ''business'' = Inr (JStr b)"
  by (simp_all add: intentObj_def)

lemma successBody_text:
  "s \<noteq> [] \<Longrightarrow> getprop intent ''category'' = Inr category \<Longrightarrow>
   successBody (JStr s) intent now =
     Inr (Success_envelope (JStr s) JUndefined JUndefined JUndefined category now)"
  by (simp add: successBody_def optionalField_def thenE_def)

lemma logConversation_object:
  "getprop intent ''category'' = Inr category \<Longrightarrow>
   \<exists>convs'. logConversation w convs message response intent = Inr convs'"
  by (cases intent) (simp_all add: logConversation_def thenE_def Let_def)

text \<open>The success path of the dispatcher for a handler that answers with a text.\<close>

lemma handleChatMessage_text:
  assumes "analyzeIntent (apis a) w message context = (intent, sent1)"
    and "getprop intent ''category'' = Inr category"
    and "switch_category (apis a) w category intent message context businessContext
           = (JStr s, sent2)"
    and "s \<noteq> []"
  shows "\<exists>convs'. handleChatMessage a w message context businessContext =
           (\<lparr>status = 200,
             json = Success_envelope (JStr s) JUndefined JUndefined JUndefined category (new_Date w)\<rparr>,
            a\<lparr>conversations := convs'\<rparr>, sent1 @ sent2)
         \<and> logConversation w (conversations a) message (JStr s) intent = Inr convs'"
proof -
  from logConversation_object [OF assms(2)] obtain convs' where
    l: "logConversation w (conversations a) message (JStr s) intent = Inr convs'" by blast
  show ?thesis
    by (rule exI [of _ convs'])
       (simp add: handleChatMessage_def assms(1-3) l successBody_text [OF assms(4) assms(2)])
qed

lemma analyzeIntent_unconfigured:
  "unconfigured cfg \<Longrightarrow> analyzeIntent cfg w message context = (keywordIntent message, [])"
  by (simp add: analyzeIntent_def analyzeIntent_try_def)

text \<open>
  Claim C8. With no classifier configured, dispatching "I need to schedule a call" answers
  with status 200 and a success envelope whose intent is "calendar" and whose response is
  the fixed text of the calendar assistant, and sends no request; the message contains both
  "schedule" and "call", and the calendar rule is tested first.
\<close>

theorem schedule_a_call_dispatch:
  assumes "unconfigured (apis a)"
  shows "(\<exists>a'. handleChatMessage a w ''I need to schedule a call'' context businessContext =
           (\<lparr>status = 200,
             json = Success_envelope
                      (CalendarAssistant_handleRequest (keywordIntent ''I need to schedule a call'')
                         ''I need to schedule a call'')
                      JUndefined JUndefined JUndefined (JStr ''calendar'') (new_Date w)\<rparr>,
            a', []))
     \<and> includes_str (toLowerCase ''I need to schedule a call'') ''schedule''
     \<and> includes_str (toLowerCase ''I need to schedule a call'') ''call''"
proof -
  let ?m = "''I need to schedule a call''"
  have k: "keywordIntent ?m = intentObj ''calendar'' 0.7 ''calendar_management'' ''both'' ''medium''"
    by code_simp
  have c: "getprop (keywordIntent ?m) ''category'' = Inr (JStr ''calendar'')"
    by (simp only: k getprop_intentObj)
  have sw: "switch_category (apis a) w (JStr ''calendar'') (keywordIntent ?m) ?m context businessContext
      = (JStr ''I can help you schedule appointments, make reservations, and manage your calendar across both businesses. What would you like me to schedule?'', [])"
    by (simp add: switch_category_def CalendarAssistant_handleRequest_def)
  from handleChatMessage_text [OF analyzeIntent_unconfigured [OF assms] c sw]
  have d: "\<exists>a'. handleChatMessage a w ?m context businessContext =
           (\<lparr>status = 200,
             json = Success_envelope (CalendarAssistant_handleRequest (keywordIntent ?m) ?m)
                      JUndefined JUndefined JUndefined (JStr ''calendar'') (new_Date w)\<rparr>,
            a', [])"
    by (auto simp: CalendarAssistant_handleRequest_def)
  have s1: "includes_str (toLowerCase ?m) ''schedule''" by code_simp
  have s2: "includes_str (toLowerCase ?m) ''call''" by code_simp
  from d s1 s2 show ?thesis by (intro conjI)
qed

theorem schedule_a_call_dispatch_witness:
  "unconfigured (apis offline_assistant) \<and>
   (\<exists>a'. handleChatMessage offline_assistant (example_world NetworkFailure NetworkFailure)
            ''I need to schedule a call'' JUndefined None =
           (\<lparr>status = 200,
             json = Success_envelope
                      (JStr ''I can help you schedule appointments, make reservations, and manage your calendar across both businesses. What would you like me to schedule?'')
                      JUndefined JUndefined JUndefined (JStr ''calendar'') 1700000000\<rparr>,
            a', []))"
proof -
  have h: "unconfigured (apis offline_assistant)"
    by (simp add: unconfigured_def offline_assistant_def)
  from schedule_a_call_dispatch [OF h, of "example_world NetworkFailure NetworkFailure" JUndefined None]
  have "\<exists>a'. handleChatMessage offline_assistant (example_world NetworkFailure NetworkFailure)
            ''I need to schedule a call'' JUndefined None =
           (\<lparr>status = 200,
             json = Success_envelope
                      (JStr ''I can help you schedule appointments, make reservations, and manage your calendar across both businesses. What would you like me to schedule?'')
                      JUndefined JUndefined JUndefined (JStr ''calendar'') 1700000000\<rparr>,
            a', [])"
    by (simp add: CalendarAssistant_handleRequest_def example_world_def)
  with h show ?thesis by (rule conjI)
qed

text \<open>
  Claim C9. With no classifier configured, dispatching the empty message raises nothing:
  no keyword occurs, the category is "general", and the reply has status 200 and a success
  envelope whose response is the text the general capability gives when the completion
  service is not configured.
\<close>

theorem empty_message_dispatch:
  assumes "unconfigured (apis a)"
  shows "\<exists>a'. handleChatMessage a w [] context businessContext =
           (\<lparr>status = 200,
             json = Success_envelope (JStr (unconfiguredText [])) JUndefined JUndefined JUndefined
                      (JStr ''general'') (new_Date w)\<rparr>,
            a', [])"
proof -
  have k: "keywordIntent [] = intentObj ''general'' 0.6 ''general_assistance'' ''both'' ''medium''"
    by code_simp
  have c: "getprop (keywordIntent []) ''category'' = Inr (JStr ''general'')"
    by (simp only: k getprop_intentObj)
  have sw: "switch_category (apis a) w (JStr ''general'') (keywordIntent []) [] context businessContext
      = (JStr (unconfiguredText []), [])"
    using assms by (simp add: switch_category_def handleGeneralRequest_def)
  have ne: "unconfiguredText [] \<noteq> []"
    by (simp add: unconfiguredText_def)
  from handleChatMessage_text [OF analyzeIntent_unconfigured [OF assms] c sw ne]
  show ?thesis by auto
qed


theorem empty_message_dispatch_witness:
  \<open>unconfigured (apis offline_assistant) \<and>
   (\<exists>a'. handleChatMessage offline_assistant (example_world NetworkFailure NetworkFailure)
            [] JUndefined None =
           (\<lparr>status = 200,
             json = Success_envelope
                      (JStr ''I understand you need assistance with: "". As your executive assistant for Molaison Agency and Molaison AI, I'm ready to help with business management, client projects, and various tasks. However, advanced AI features require API configuration. Please let me know what specific assistance you need!'')
                      JUndefined JUndefined JUndefined (JStr ''general'') 1700000000\<rparr>,
            a', []))\<close>
proof -
  have h: "unconfigured (apis offline_assistant)"
    by (simp add: unconfigured_def offline_assistant_def)
  from empty_message_dispatch [OF h, of "example_world NetworkFailure NetworkFailure" JUndefined None]
  have \<open>\<exists>a'. handleChatMessage offline_assistant (example_world NetworkFailure NetworkFailure)
            [] JUndefined None =
           (\<lparr>status = 200,
             json = Success_envelope
                      (JStr ''I understand you need assistance with: "". As your executive assistant for Molaison Agency and Molaison AI, I'm ready to help with business management, client projects, and various tasks. However, advanced AI features require API configuration. Please let me know what specific assistance you need!'')
                      JUndefined JUndefined JUndefined (JStr ''general'') 1700000000\<rparr>,
            a', [])\<close>
    by (simp add: unconfiguredText_def example_world_def)
  with h show ?thesis by (rule conjI)
qed

section \<open>Failures of a capability and of the dispatcher\<close>

text \<open>The assistant modules and the content generator answer with fixed text and raise
  nothing; the one capability whose execution can raise is the general one, when its
  completion request fails or its response body cannot be read.\<close>

lemma completion_failure:
  assumes "\<not> unconfigured cfg"
    and "completion_reply w = NetworkFailure
       \<or> (\<exists>st d. completion_reply w = HttpReply st d \<and> \<not> (200 \<le> st \<and> st < 300))
       \<or> (\<exists>st d e. completion_reply w = HttpReply st d \<and> 200 \<le> st \<and> st < 300 \<and>
             message_content d = Inl e)"
  shows "handleGeneralRequest cfg w message context = (JStr generalApology, [completion_call cfg])"
proof -
  from assms(2) have "\<exists>e. thenE (axios_post (completion_reply w)) message_content = Inl e"
    by (elim disjE exE conjE) (auto simp: axios_post_def thenE_def)
  with assms(1) show ?thesis
    by (auto simp: handleGeneralRequest_def)
qed

text \<open>
  Claim C6. In every dispatch with a credential configured in which the intent routes to the
  general capability and its completion request fails (a transport error, a status outside
  200 to 299, or a response body in which \<^verbatim>\<open>choices[0].message.content\<close> cannot be read),
  the failure is recovered inside the capability: the response is the apology text, the
  reply has status 200 and the envelope reports success.
\<close>

theorem capability_failure_recovered:
  assumes "\<not> unconfigured (apis a)"
    and "analyzeIntent (apis a) w message context = (intent, sent1)"
    and "getprop intent ''category'' = Inr category"
    and "category \<notin> JStr ` {''email'', ''calendar'', ''phone'', ''research'', ''social'',
           ''client_management'', ''business_intelligence'', ''productivity'', ''prompts'',
           ''content''}"
    and "completion_reply w = NetworkFailure
       \<or> (\<exists>st d. completion_reply w = HttpReply st d \<and> \<not> (200 \<le> st \<and> st < 300))
       \<or> (\<exists>st d e. completion_reply w = HttpReply st d \<and> 200 \<le> st \<and> st < 300 \<and>
             message_content d = Inl e)"
  shows "\<exists>a'. handleChatMessage a w message context businessContext =
           (\<lparr>status = 200,
             json = Success_envelope (JStr generalApology) JUndefined JUndefined JUndefined
                      category (new_Date w)\<rparr>,
            a', sent1 @ [completion_call (apis a)])
         \<and> success (json (fst (handleChatMessage a w message context businessContext)))"
proof -
  from assms(4) have sw: "switch_category (apis a) w category intent message context businessContext
      = handleGeneralRequest (apis a) w message context"
    by (simp add: switch_category_def)
  have sw': "switch_category (apis a) w category intent message context businessContext
      = (JStr generalApology, [completion_call (apis a)])"
    by (simp only: sw completion_failure [OF assms(1) assms(5)])
  have ne: "generalApology \<noteq> []"
    by (simp add: generalApology_def)
  from handleChatMessage_text [OF assms(2) assms(3) sw' ne]
  show ?thesis by auto
qed

theorem capability_failure_recovered_witness:
  \<open>\<not> unconfigured (apis live_assistant) \<and>
   analyzeIntent (apis live_assistant)
     (example_world
        (HttpReply 200 (completion_body (JStr ''{"category":"general","confidence":0.9,"action":"chat","business":"ai","priority":"low"}'')))
        (HttpReply 503 JNull))
     ''hello there'' JUndefined
     = (intentObj ''general'' 0.9 ''chat'' ''ai'' ''low'', [classify_call (apis live_assistant)]) \<and>
   (\<exists>a'. handleChatMessage live_assistant
     (example_world
        (HttpReply 200 (completion_body (JStr ''{"category":"general","confidence":0.9,"action":"chat","business":"ai","priority":"low"}'')))
        (HttpReply 503 JNull))
     ''hello there'' JUndefined None =
       (\<lparr>status = 200,
         json = Success_envelope
           (JStr ''I understand you need assistance. Let me help you with that. Could you provide more specific details about what you'd like me to handle?'')
           JUndefined JUndefined JUndefined (JStr ''general'') 1700000000\<rparr>,
        a', [classify_call (apis live_assistant), completion_call (apis live_assistant)]))\<close>
proof -
  let ?w = \<open>example_world
        (HttpReply 200 (completion_body (JStr ''{"category":"general","confidence":0.9,"action":"chat","business":"ai","priority":"low"}'')))
        (HttpReply 503 JNull)\<close>
  have h1: "\<not> unconfigured (apis live_assistant)"
    by (simp add: unconfigured_def live_assistant_def)
  have h2: "analyzeIntent (apis live_assistant) ?w ''hello there'' JUndefined
     = (intentObj ''general'' 0.9 ''chat'' ''ai'' ''low'', [classify_call (apis live_assistant)])"
    by (simp add: classification_result [OF h1] example_world_def completion_body_def
        axios_post_def message_content_def thenE_def example_parse_def)
  have h3: "getprop (intentObj ''general'' 0.9 ''chat'' ''ai'' ''low'') ''category'' = Inr (JStr ''general'')"
    by (simp only: getprop_intentObj)
  have h4: "JStr ''general'' \<notin> JStr ` {''email'', ''calendar'', ''phone'', ''research'', ''social'',
           ''client_management'', ''business_intelligence'', ''productivity'', ''prompts'',
           ''content''}"
    by simp
  have h5: "completion_reply ?w = NetworkFailure
       \<or> (\<exists>st d. completion_reply ?w = HttpReply st d \<and> \<not> (200 \<le> st \<and> st < 300))
       \<or> (\<exists>st d e. completion_reply ?w = HttpReply st d \<and> 200 \<le> st \<and> st < 300 \<and>
             message_content d = Inl e)"
    by (simp add: example_world_def)
  from capability_failure_recovered [OF h1 h2 h3 h4 h5, of None]
  have \<open>\<exists>a'. handleChatMessage live_assistant ?w ''hello there'' JUndefined None =
       (\<lparr>status = 200,
         json = Success_envelope
           (JStr ''I understand you need assistance. Let me help you with that. Could you provide more specific details about what you'd like me to handle?'')
           JUndefined JUndefined JUndefined (JStr ''general'') 1700000000\<rparr>,
        a', [classify_call (apis live_assistant), completion_call (apis live_assistant)])\<close>
    by (simp add: generalApology_def example_world_def)
  with h1 h2 show ?thesis by (intro conjI)
qed

text \<open>An exception raised before the log is written leaves the log as it was.\<close>

lemma failure_before_log:
  assumes "analyzeIntent (apis a) w message context = (intent, sent1)"
    and "intent = JNull \<or> intent = JUndefined"
  shows "handleChatMessage a w message context businessContext = (failureReply, a, sent1)"
  using assms by (auto simp: handleChatMessage_def)

text \<open>
  Claim C4 does not hold of the code on one path. \<^verbatim>\<open>handleChatMessage\<close> calls
  \<^verbatim>\<open>logConversation\<close> before it builds the envelope, and the test
  \<^verbatim>\<open>typeof response === 'object'\<close> holds of \<^verbatim>\<open>null\<close>, while the three fields after it
  guard with \<^verbatim>\<open>response &&\<close>. When the completion service answers with the content
  \<^verbatim>\<open>null\<close>, the record is appended, then reading \<^verbatim>\<open>response.response\<close> raises, and the
  failure envelope is returned with the log one record longer.
\<close>

theorem null_completion_logged_before_failure:
  \<open>fst (handleChatMessage live_assistant
          (example_world
             (HttpReply 200 (completion_body (JStr ''{"category":"general","confidence":0.9,"action":"chat","business":"ai","priority":"low"}'')))
             (HttpReply 200 (completion_body JNull)))
          ''hello'' JUndefined None) = failureReply
   \<and> conversations live_assistant = []
   \<and> conversations (fst (snd (handleChatMessage live_assistant
          (example_world
             (HttpReply 200 (completion_body (JStr ''{"category":"general","confidence":0.9,"action":"chat","business":"ai","priority":"low"}'')))
             (HttpReply 200 (completion_body JNull)))
          ''hello'' JUndefined None)))
      = [\<lparr>rec_id = ''0b5c7e0e-6a55-4c3b-9d0f-3a1f6f2f9a11'', rec_message = ''hello'',
          rec_response = JNull, rec_intent = intentObj ''general'' 0.9 ''chat'' ''ai'' ''low'',
          rec_timestamp = 1700000000, rec_business = JStr ''ai''\<rparr>]\<close>
  by (simp add: handleChatMessage_def analyzeIntent_def analyzeIntent_try_def unconfigured_def
      live_assistant_def example_world_def completion_body_def axios_post_def message_content_def
      thenE_def example_parse_def switch_category_def handleGeneralRequest_def
      logConversation_def conversationRecord_def Let_def successBody_def intentObj_def)

end
